theory Spec2Isabelle
  imports Main
begin

section \<open>Python built-ins used by \<^verbatim>\<open>magnum/api/auth.py\<close>\<close>

text \<open>
  Strings are byte strings (\<^typ>\<open>string\<close>), as the headers of a WSGI request are in
  the Python 2 runtime this module was written for.  A value that may be Python's
  \<^verbatim>\<open>None\<close> is an \<^typ>\<open>'a option\<close>.
\<close>

subsection \<open>\<^verbatim>\<open>str.join\<close>, \<^verbatim>\<open>str.split\<close>, \<^verbatim>\<open>str.strip\<close>, \<^verbatim>\<open>str.startswith\<close>\<close>

text \<open>\<^verbatim>\<open>sep.join(parts)\<close>.\<close>

fun join :: "string \<Rightarrow> string list \<Rightarrow> string" where
  "join sep [] = []"
| "join sep [p] = p"
| "join sep (p # q # ps) = p @ sep @ join sep (q # ps)"

text \<open>
  \<^verbatim>\<open>s.split(sep)\<close> for a separator of one character.  The result is never empty:
  \<^verbatim>\<open>''.split(',')\<close> is \<^verbatim>\<open>['']\<close>.  The second branch of the \<open>case\<close> is never taken
  (lemma \<open>split_str_not_Nil\<close> below); it is there because HOL functions are total.
\<close>

fun split_str :: "char \<Rightarrow> string \<Rightarrow> string list" where
  "split_str sep [] = [[]]"
| "split_str sep (c # cs) =
     (if c = sep then [] # split_str sep cs
      else (case split_str sep cs of
              p # ps \<Rightarrow> (c # p) # ps
            | [] \<Rightarrow> [[c]]))"

text \<open>
  The characters \<^verbatim>\<open>str.strip()\<close> removes when called without an argument on a byte
  string: space, \<^verbatim>\<open>\t\<close>, \<^verbatim>\<open>\n\<close>, \<^verbatim>\<open>\x0b\<close>, \<^verbatim>\<open>\x0c\<close> and \<^verbatim>\<open>\r\<close>.
\<close>

definition isspace :: "char \<Rightarrow> bool" where
  "isspace c = (c = CHR '' '' \<or> c = CHR 0x09 \<or> c = CHR 0x0A \<or> c = CHR 0x0B
                \<or> c = CHR 0x0C \<or> c = CHR 0x0D)"

definition strip :: "string \<Rightarrow> string" where
  "strip s = rev (dropWhile isspace (rev (dropWhile isspace s)))"

text \<open>\<^verbatim>\<open>s.startswith(p)\<close>.\<close>

fun startswith :: "string \<Rightarrow> string \<Rightarrow> bool" where
  "startswith s [] = True"
| "startswith [] (c # p) = False"
| "startswith (d # s) (c # p) = (d = c \<and> startswith s p)"

subsection \<open>\<^verbatim>\<open>re.compile(pattern).match(string)\<close>\<close>

text \<open>
  The patterns modelled are the alternations of literal strings: \<^verbatim>\<open>|\<close> separates the
  alternatives and every other character stands for itself.  The empty pattern, which is
  what \<^verbatim>\<open>'|'.join([])\<close> compiles, is the alternation of the one empty literal.

  \<^verbatim>\<open>match\<close> anchors at the start of the string and tries the alternatives from left to
  right.  The result is the matched text (\<^verbatim>\<open>group(0)\<close> of the match object), or \<open>None\<close>
  when no alternative is a prefix of the string.  A match object is truthy in Python
  even when the matched text is empty, so the truth value of the result is
  \<open>\<noteq> None\<close>, not the truth value of the matched text.
\<close>

definition re_match :: "string \<Rightarrow> string \<Rightarrow> string option" where
  "re_match pattern s = List.find (startswith s) (split_str CHR ''|'' pattern)"

subsection \<open>\<^verbatim>\<open>dict.get\<close> on the request headers\<close>

text \<open>
  The headers are the lookup \<^verbatim>\<open>name \<mapsto> value\<close> that \<^verbatim>\<open>request.headers\<close> offers, under the
  names the source reads.  \<^verbatim>\<open>headers.get(k, d)\<close> with a default that may be \<^verbatim>\<open>None\<close>
  is \<open>headers_get\<close>; with a string default the result is a string, \<open>headers_get_str\<close>.
\<close>

type_synonym headers = "string \<rightharpoonup> string"

definition headers_get :: "headers \<Rightarrow> string \<Rightarrow> string option \<Rightarrow> string option" where
  "headers_get h k d = (case h k of None \<Rightarrow> d | Some v \<Rightarrow> Some v)"

definition headers_get_str :: "headers \<Rightarrow> string \<Rightarrow> string \<Rightarrow> string" where
  "headers_get_str h k d = (case h k of None \<Rightarrow> d | Some v \<Rightarrow> v)"

section \<open>The data of a request\<close>

text \<open>Exceptions the module raises or catches.\<close>

datatype exn = Exception string | ValueError

text \<open>What \<^verbatim>\<open>LOG\<close> receives: the level and the message, in the order of the calls.\<close>

datatype level = DEBUG | WARNING

type_synonym logs = "(level \<times> string) list"

text \<open>
  The values of \<^verbatim>\<open>request.environ\<close>; the hook only passes
  \<^verbatim>\<open>environ.get('keystone.token_info')\<close> on.
\<close>

datatype pyobj = PyStr string | PyDict "(string \<times> pyobj) list"

text \<open>
  Modelled from the spec: the class \<^verbatim>\<open>magnum.common.context.RequestContext\<close> is not
  among the sources.  The specification's data model gives its fields (token, token
  metadata, user identifier and display name, project, domain, user domain, project
  domain, roles, identity-service URL); here there is one field for each keyword
  argument of the call in \<^verbatim>\<open>before\<close>, under the keyword's name, holding what the call
  passes (the roles as the list \<^verbatim>\<open>_get_roles\<close> returns).
\<close>

record RequestContext =
  auth_token :: "string option"
  auth_token_info :: "pyobj option"
  user :: string
  tenant :: "string option"
  domain :: "string option"
  user_domain :: string
  project_domain :: string
  user_name :: string
  roles :: "string list"
  auth_url :: "string option"

text \<open>
  The request of a Pecan \<^verbatim>\<open>state\<close>.  \<open>security_context\<close> is \<open>None\<close> as long as the
  attribute has not been assigned.
\<close>

record request =
  path :: string
  headers :: headers
  environ :: "string \<rightharpoonup> pyobj"
  security_context :: "RequestContext option"

record pecan_state =
  request :: request

text \<open>
  The configuration: \<^verbatim>\<open>enable_authentication\<close> and the option group
  \<^verbatim>\<open>keystone_authtoken\<close>, of which the module reads \<^verbatim>\<open>auth_uri\<close>.
\<close>

record keystone_authtoken =
  auth_uri :: "string option"

record conf =
  enable_authentication :: bool
  keystone_authtoken :: keystone_authtoken

section \<open>\<^verbatim>\<open>AuthHelper\<close>\<close>

record AuthHelper =
  public_endpoints_regexp :: string

text \<open>
  \<^verbatim>\<open>AuthHelper.__init__\<close>, with the module's list \<^verbatim>\<open>PUBLIC_ENDPOINTS\<close> as its argument.
  A compiled pattern is represented by its source.
\<close>

definition AuthHelper_init :: "string list \<Rightarrow> AuthHelper" where
  "AuthHelper_init public_endpoints =
     (let endpoints_pattern = join ''|'' public_endpoints
      in \<lparr>public_endpoints_regexp = endpoints_pattern\<rparr>)"

definition is_endpoint_public :: "AuthHelper \<Rightarrow> string \<Rightarrow> string option" where
  "is_endpoint_public self p = re_match (public_endpoints_regexp self) p"

definition PUBLIC_ENDPOINTS :: "string list" where
  "PUBLIC_ENDPOINTS = []"

definition AUTH :: AuthHelper where
  "AUTH = AuthHelper_init PUBLIC_ENDPOINTS"

section \<open>\<^verbatim>\<open>install\<close>\<close>

text \<open>
  The application \<^verbatim>\<open>install\<close> returns: the one it was given, or that one wrapped in
  \<^verbatim>\<open>AuthProtocolWrapper\<close> with the options of the group \<^verbatim>\<open>keystone_authtoken\<close>.
\<close>

datatype 'app wsgi = Bare 'app | AuthProtocolWrapper 'app keystone_authtoken

definition install_warning :: string where
  "install_warning =
     ''Keystone authentication is disabled by Magnum configuration parameter enable_authentication. Magnum will not authenticate incoming request. In order to enable authentication set enable_authentication option to True.''"

definition install :: "'app \<Rightarrow> conf \<Rightarrow> 'app wsgi \<times> logs" where
  "install app cf =
     (if enable_authentication cf
      then (AuthProtocolWrapper app (keystone_authtoken cf), [])
      else (Bare app, [(WARNING, install_warning)]))"

section \<open>\<^verbatim>\<open>AuthInformationHook\<close>\<close>

text \<open>
  \<^verbatim>\<open>_get_roles\<close>: the list of roles, and what was logged.
\<close>

definition deprecation_warning :: string where
  "deprecation_warning = ''X-Roles is missing. Using deprecated X-Role header''"

definition get_roles :: "request \<Rightarrow> string list \<times> logs" where
  "get_roles req =
     (if headers req ''X-Roles'' \<noteq> None
      then (let rs = headers_get_str (headers req) ''X-Roles'' ''''
            in (map strip (split_str CHR '','' rs), []))
      else (let rs = headers_get_str (headers req) ''X-Role'' ''''
            in (map strip (split_str CHR '','' rs),
                if rs \<noteq> [] then [(WARNING, deprecation_warning)] else [])))"

text \<open>
  The body of the \<^verbatim>\<open>try\<close> block that reads the token.  \<^verbatim>\<open>headers.get\<close> raises
  nothing, so the body always yields a value.
\<close>

definition try_recv_auth_token :: "headers \<Rightarrow> exn + string option" where
  "try_recv_auth_token h =
     Inr (headers_get h ''X-Auth-Token'' (headers_get h ''X-Storage-Token'' None))"

text \<open>
  What a call of \<^verbatim>\<open>before\<close> leaves behind: the exception it raised, if any, the state
  (the hook mutates \<^verbatim>\<open>state.request\<close> in place, so there is a state after a raise
  too), and the log messages it emitted.
\<close>

record outcome =
  raised :: "exn option"
  state_after :: pecan_state
  logged :: logs

text \<open>
  \<^verbatim>\<open>AuthInformationHook.before\<close>.  The globals \<^verbatim>\<open>CONF\<close> and \<^verbatim>\<open>AUTH\<close> are arguments.
  The call of \<^verbatim>\<open>importutils.import_module\<close> registers the options of
  \<^verbatim>\<open>keystone_authtoken\<close> so that \<^verbatim>\<open>auth_uri\<close> can be read; the record \<open>conf\<close> always
  has them.
\<close>

definition before :: "conf \<Rightarrow> AuthHelper \<Rightarrow> pecan_state \<Rightarrow> outcome" where
  "before cf auth state =
     (if \<not> enable_authentication cf
      then \<lparr>raised = None, state_after = state, logged = []\<rparr>
      else if is_endpoint_public auth (path (request state)) \<noteq> None
      then \<lparr>raised = None, state_after = state, logged = []\<rparr>
      else
        let hs = headers (request state) in
        (case headers_get hs ''X-User-Id'' None of
           None \<Rightarrow>
             \<lparr>raised = Some (Exception ''Not authorized''), state_after = state,
              logged = [(DEBUG, ''X-User-Id header was not found in the request'')]\<rparr>
         | Some user_id \<Rightarrow>
             (case get_roles (request state) of (rs, lg) \<Rightarrow>
              let project_id = headers_get hs ''X-Project-Id'' None;
                  usr_name = headers_get_str hs ''X-User-Name'' '''';
                  dom_name = headers_get hs ''X-Domain-Name'' None;
                  project_domain_id = headers_get_str hs ''X-Project-Domain-Id'' '''';
                  user_domain_id = headers_get_str hs ''X-User-Domain-Id'' ''''
              in
              (case try_recv_auth_token hs of
                 Inl ValueError \<Rightarrow>
                   \<lparr>raised = Some (Exception ''Not authorized''), state_after = state,
                    logged = lg @ [(DEBUG, ''No auth token found in the request.'')]\<rparr>
               | Inl (Exception m) \<Rightarrow>
                   \<lparr>raised = Some (Exception m), state_after = state, logged = lg\<rparr>
               | Inr recv_auth_token \<Rightarrow>
                   let url = (case headers_get hs ''X-Auth-Url'' None of
                                None \<Rightarrow> auth_uri (keystone_authtoken cf)
                              | Some u \<Rightarrow> Some u);
                       token_info = environ (request state) ''keystone.token_info'';
                       identity_status = headers_get hs ''X-Identity-Status'' None
                   in
                   if identity_status = Some ''Confirmed''
                   then
                     let ctx = \<lparr>auth_token = recv_auth_token,
                                auth_token_info = token_info,
                                user = user_id,
                                tenant = project_id,
                                domain = dom_name,
                                user_domain = user_domain_id,
                                project_domain = project_domain_id,
                                user_name = usr_name,
                                roles = rs,
                                auth_url = url\<rparr>
                     in \<lparr>raised = None,
                         state_after =
                           state\<lparr>request := (request state)\<lparr>security_context := Some ctx\<rparr>\<rparr>,
                         logged = lg\<rparr>
                   else
                     \<lparr>raised = Some (Exception ''Not authorized. Identity not confirmed.''),
                      state_after = state,
                      logged = lg @ [(DEBUG, ''The provided identity is not confirmed.'')]\<rparr>))))"

text \<open>
  The specification's test for a public path, in its words: the request path matches
  any pattern in PublicEndpointSet.  The source does not compute this; it matches the
  path against the one pattern joined from the list (\<open>is_endpoint_public\<close>).  The two
  agree for a list that is not empty and differ for the empty list (lemmas
  \<open>is_endpoint_public_listed\<close> and \<open>AUTH_public\<close> below).
\<close>

definition matches_public_endpoint_set :: "string list \<Rightarrow> string \<Rightarrow> bool" where
  "matches_public_endpoint_set public_endpoints p =
     list_ex (\<lambda>pattern. re_match pattern p \<noteq> None) public_endpoints"

section \<open>Example inputs\<close>

text \<open>
  A configuration with authentication enabled, a helper built from a list of two public
  endpoints, and the state of a fresh request (no context assigned yet) with a given
  path and given headers.
\<close>

definition example_conf :: conf where
  "example_conf =
     \<lparr>enable_authentication = True,
      keystone_authtoken = \<lparr>auth_uri = Some ''http://keystone:5000/v2.0''\<rparr>\<rparr>"

definition example_auth :: AuthHelper where
  "example_auth = AuthHelper_init [''/v1/public'', ''/versions'']"

definition example_state :: "string \<Rightarrow> headers \<Rightarrow> pecan_state" where
  "example_state p h =
     \<lparr>request = \<lparr>path = p, headers = h, environ = Map.empty, security_context = None\<rparr>\<rparr>"

section \<open>Properties of the built-ins\<close>

lemma split_str_not_Nil: "split_str sep s \<noteq> []"
  by (induction s) (auto split: list.splits)

lemma re_match_empty_pattern: "re_match [] s = Some []"
  by (simp add: re_match_def)

lemma join_Cons_head: "join sep ((c # p) # ps) = c # join sep (p # ps)"
  by (cases ps) simp_all

text \<open>Splitting loses nothing: joining the parts with the separator gives the string back,
  and no part contains the separator.\<close>

lemma join_split_str: "join [sep] (split_str sep s) = s"
proof (induction s)
  case Nil
  show ?case by simp
next
  case (Cons c cs)
  obtain p ps where ps: "split_str sep cs = p # ps"
    using split_str_not_Nil [of sep cs] by (cases "split_str sep cs") auto
  show ?case
  proof (cases "c = sep")
    case True
    with Cons ps show ?thesis by simp
  next
    case False
    with Cons ps show ?thesis by (simp add: join_Cons_head)
  qed
qed

lemma split_str_no_sep: "p \<in> set (split_str sep s) \<Longrightarrow> sep \<notin> set p"
proof (induction s arbitrary: p)
  case Nil
  then show ?case by simp
next
  case (Cons c cs)
  then show ?case
    by (cases "split_str sep cs") (auto split: if_splits)
qed

text \<open>
  The pattern joined from a list that is not empty matches exactly when one of the
  patterns of the list does.  For the empty list this fails: the joined pattern is
  empty and matches every string (\<open>re_match_empty_pattern\<close>), with no pattern in the list.
\<close>

lemma split_str_append_sep:
  "split_str sep (a @ sep # b) = split_str sep a @ split_str sep b"
proof (induction a)
  case Nil
  show ?case by simp
next
  case (Cons c a)
  obtain p ps where ps: "split_str sep a = p # ps"
    using split_str_not_Nil [of sep a] by (cases "split_str sep a") auto
  with Cons show ?case by simp
qed

lemma split_str_join:
  "eps \<noteq> [] \<Longrightarrow> split_str sep (join [sep] eps) = concat (map (split_str sep) eps)"
proof (induction eps)
  case Nil
  then show ?case by simp
next
  case (Cons p ps)
  show ?case
  proof (cases ps)
    case Nil
    then show ?thesis by simp
  next
    case (Cons q qs)
    with Cons.IH show ?thesis by (simp add: split_str_append_sep)
  qed
qed

lemma find_not_None: "(List.find P xs \<noteq> None) = (\<exists>x\<in>set xs. P x)"
  by (auto simp: find_None_iff)

lemma re_match_join:
  "eps \<noteq> [] \<Longrightarrow>
   (re_match (join ''|'' eps) s \<noteq> None) = (\<exists>e\<in>set eps. re_match e s \<noteq> None)"
  unfolding re_match_def find_not_None by (simp add: split_str_join)

text \<open>
  \<open>strip\<close> removes white space at both ends and nothing else: what is left neither
  starts nor ends with white space, and the string is what is left between two runs of
  white space.
\<close>

lemma strip_no_outer_space:
  assumes "strip s \<noteq> []"
  shows "\<not> isspace (hd (strip s))" and "\<not> isspace (last (strip s))"
proof -
  let ?t = "dropWhile isspace s"
  let ?u = "dropWhile isspace (rev ?t)"
  from assms have u: "?u \<noteq> []" by (simp add: strip_def)
  then have "\<not> isspace (hd ?u)" by (rule hd_dropWhile)
  with u show "\<not> isspace (last (strip s))" by (simp add: strip_def last_rev)
  from u have t: "?t \<noteq> []" by (metis dropWhile.simps(1) rev.simps(1))
  then have nt: "\<not> isspace (hd ?t)" by (rule hd_dropWhile)
  have "\<exists>w. rev ?t = w @ ?u" by (metis takeWhile_dropWhile_id)
  then obtain w where w: "rev ?t = w @ ?u" ..
  then have "?t = rev ?u @ rev w" by (metis rev_append rev_rev_ident)
  with u have "hd ?t = hd (rev ?u)" by (metis hd_append2 rev_is_Nil_conv)
  with nt show "\<not> isspace (hd (strip s))" by (simp add: strip_def)
qed

lemma strip_decompose:
  "\<exists>a b. s = a @ strip s @ b \<and> list_all isspace a \<and> list_all isspace b"
proof -
  let ?t = "dropWhile isspace s"
  let ?a = "takeWhile isspace s"
  let ?b = "rev (takeWhile isspace (rev ?t))"
  have "rev ?t = takeWhile isspace (rev ?t) @ dropWhile isspace (rev ?t)" by simp
  then have "?t = strip s @ ?b"
    unfolding strip_def by (metis rev_append rev_rev_ident)
  then have "s = ?a @ strip s @ ?b" by (metis takeWhile_dropWhile_id)
  moreover have "list_all isspace ?a" by (simp add: list_all_iff) (meson set_takeWhileD)
  moreover have "list_all isspace ?b" by (simp add: list_all_iff) (meson set_takeWhileD)
  ultimately show ?thesis by blast
qed

section \<open>The branches of \<^verbatim>\<open>before\<close>\<close>

lemma before_disabled:
  "\<not> enable_authentication cf \<Longrightarrow>
   before cf auth state = \<lparr>raised = None, state_after = state, logged = []\<rparr>"
  by (simp add: before_def)

lemma before_public:
  "is_endpoint_public auth (path (request state)) \<noteq> None \<Longrightarrow>
   before cf auth state = \<lparr>raised = None, state_after = state, logged = []\<rparr>"
  by (simp add: before_def)

lemma before_no_user_id:
  "enable_authentication cf \<Longrightarrow> is_endpoint_public auth (path (request state)) = None \<Longrightarrow>
   headers (request state) ''X-User-Id'' = None \<Longrightarrow>
   before cf auth state =
     \<lparr>raised = Some (Exception ''Not authorized''), state_after = state,
      logged = [(DEBUG, ''X-User-Id header was not found in the request'')]\<rparr>"
  by (simp add: before_def headers_get_def)

lemma before_not_confirmed:
  "enable_authentication cf \<Longrightarrow> is_endpoint_public auth (path (request state)) = None \<Longrightarrow>
   headers (request state) ''X-User-Id'' = Some u \<Longrightarrow>
   headers (request state) ''X-Identity-Status'' \<noteq> Some ''Confirmed'' \<Longrightarrow>
   before cf auth state =
     \<lparr>raised = Some (Exception ''Not authorized. Identity not confirmed.''),
      state_after = state,
      logged = snd (get_roles (request state))
               @ [(DEBUG, ''The provided identity is not confirmed.'')]\<rparr>"
  by (simp add: before_def headers_get_def try_recv_auth_token_def Let_def
           split: prod.splits option.splits)

lemma before_confirmed:
  "enable_authentication cf \<Longrightarrow> is_endpoint_public auth (path (request state)) = None \<Longrightarrow>
   headers (request state) ''X-User-Id'' = Some u \<Longrightarrow>
   headers (request state) ''X-Identity-Status'' = Some ''Confirmed'' \<Longrightarrow>
   before cf auth state =
     \<lparr>raised = None,
      state_after = state\<lparr>request := (request state)\<lparr>security_context := Some
        \<lparr>auth_token = headers_get (headers (request state)) ''X-Auth-Token''
                        (headers (request state) ''X-Storage-Token''),
         auth_token_info = environ (request state) ''keystone.token_info'',
         user = u,
         tenant = headers (request state) ''X-Project-Id'',
         domain = headers (request state) ''X-Domain-Name'',
         user_domain = headers_get_str (headers (request state)) ''X-User-Domain-Id'' '''',
         project_domain = headers_get_str (headers (request state)) ''X-Project-Domain-Id'' '''',
         user_name = headers_get_str (headers (request state)) ''X-User-Name'' '''',
         roles = fst (get_roles (request state)),
         auth_url = headers_get (headers (request state)) ''X-Auth-Url''
                      (auth_uri (keystone_authtoken cf))\<rparr>\<rparr>\<rparr>,
      logged = snd (get_roles (request state))\<rparr>"
  by (simp add: before_def headers_get_def try_recv_auth_token_def Let_def
           split: prod.splits option.splits)

section \<open>The example inputs, evaluated\<close>

lemma example_auth_public: "is_endpoint_public example_auth ''/versions/1'' = Some ''/versions''"
  by (simp add: example_auth_def AuthHelper_init_def is_endpoint_public_def re_match_def)

lemma AUTH_public: "is_endpoint_public AUTH p = Some []"
  by (simp add: AUTH_def PUBLIC_ENDPOINTS_def AuthHelper_init_def is_endpoint_public_def
        re_match_empty_pattern)

text \<open>
  For a list of patterns that is not empty the helper's test is the specification's.
  For the module's empty list it is not: no pattern matches a path, and the helper
  matches every path.
\<close>

lemma is_endpoint_public_listed:
  "eps \<noteq> [] \<Longrightarrow>
   (is_endpoint_public (AuthHelper_init eps) p \<noteq> None) = matches_public_endpoint_set eps p"
  using re_match_join [of eps p]
  by (simp add: is_endpoint_public_def AuthHelper_init_def matches_public_endpoint_set_def
        list_ex_iff)

lemma no_listed_endpoint_matches: "matches_public_endpoint_set PUBLIC_ENDPOINTS p = False"
  by (simp add: matches_public_endpoint_set_def PUBLIC_ENDPOINTS_def)

lemma example_state_simps [simp]:
  "path (request (example_state p h)) = p"
  "headers (request (example_state p h)) = h"
  "environ (request (example_state p h)) = Map.empty"
  "security_context (request (example_state p h)) = None"
  by (simp_all add: example_state_def)

lemma example_conf_simps [simp]:
  "enable_authentication example_conf"
  "auth_uri (keystone_authtoken example_conf) = Some ''http://keystone:5000/v2.0''"
  by (simp_all add: example_conf_def)

section \<open>The claims\<close>

text \<open>
  Claim C2.  The module's \<^verbatim>\<open>PUBLIC_ENDPOINTS\<close> is the empty list.  Joining no patterns
  gives the empty pattern, the empty pattern matches every string, so
  \<^verbatim>\<open>AUTH.is_endpoint_public\<close> returns a (truthy) match for every path, and
  \<^verbatim>\<open>before\<close> with this \<^verbatim>\<open>AUTH\<close> returns before it looks at any header, for every
  configuration and every request: nothing raised, the state as it was, nothing logged.
\<close>

theorem empty_public_endpoints_match_every_path:
  "join ''|'' PUBLIC_ENDPOINTS = [] \<and> re_match [] p = Some []
   \<and> is_endpoint_public AUTH p \<noteq> None
   \<and> before cf AUTH state = \<lparr>raised = None, state_after = state, logged = []\<rparr>"
  by (simp add: PUBLIC_ENDPOINTS_def re_match_empty_pattern AUTH_public before_public)

theorem empty_public_endpoints_match_every_path_witness:
  "is_endpoint_public AUTH ''/v1/pods'' \<noteq> None
   \<and> before example_conf AUTH (example_state ''/v1/pods'' Map.empty)
       = \<lparr>raised = None, state_after = example_state ''/v1/pods'' Map.empty, logged = []\<rparr>"
  using empty_public_endpoints_match_every_path
          [of "''/v1/pods''" example_conf "example_state ''/v1/pods'' Map.empty"]
  by simp

text \<open>
  Claim C7.  When \<^verbatim>\<open>enable_authentication\<close> is false, \<^verbatim>\<open>before\<close> returns at once,
  whatever the helper, the path and the headers are: nothing is raised, the state
  (and with it the absence of a context) is as it was, nothing is logged by the hook.
  \<^verbatim>\<open>install\<close> then returns the application unwrapped and logs its one warning.
\<close>

theorem authentication_disabled_passes_through:
  assumes "\<not> enable_authentication cf"
  shows "before cf auth state = \<lparr>raised = None, state_after = state, logged = []\<rparr>
         \<and> install app cf = (Bare app, [(WARNING, install_warning)])"
  using assms by (simp add: before_disabled install_def)

theorem authentication_disabled_passes_through_witness:
  "before (example_conf\<lparr>enable_authentication := False\<rparr>) example_auth
      (example_state ''/v1/pods'' [''X-Identity-Status'' \<mapsto> ''Invalid''])
     = \<lparr>raised = None,
        state_after = example_state ''/v1/pods'' [''X-Identity-Status'' \<mapsto> ''Invalid''],
        logged = []\<rparr>
   \<and> install ''app'' (example_conf\<lparr>enable_authentication := False\<rparr>)
       = (Bare ''app'', [(WARNING, install_warning)])"
  using authentication_disabled_passes_through
          [of "example_conf\<lparr>enable_authentication := False\<rparr>" example_auth
              "example_state ''/v1/pods'' [''X-Identity-Status'' \<mapsto> ''Invalid'']" "''app''"]
  by simp

text \<open>
  Claim C8.  With authentication enabled, a request whose path \<^verbatim>\<open>is_endpoint_public\<close>
  matches passes through: nothing is raised, the state is unchanged (no context is
  assigned) and nothing is logged, whatever the headers are; in particular when there
  are none.
\<close>

theorem public_endpoint_passes_through:
  assumes "enable_authentication cf"
    and "is_endpoint_public auth (path (request state)) \<noteq> None"
  shows "before cf auth state = \<lparr>raised = None, state_after = state, logged = []\<rparr>"
  using assms by (simp add: before_public)

theorem public_endpoint_passes_through_witness:
  "before example_conf example_auth (example_state ''/versions/1'' Map.empty)
     = \<lparr>raised = None, state_after = example_state ''/versions/1'' Map.empty, logged = []\<rparr>"
  using public_endpoint_passes_through
          [of example_conf example_auth "example_state ''/versions/1'' Map.empty"]
  by (simp add: example_auth_public)

text \<open>
  Claim C6.  For every header value \<open>s\<close>: a request with \<^verbatim>\<open>X-Roles: s\<close> gets the roles
  \<open>s\<close> split at the commas, each part stripped, and logs nothing; a request without
  \<^verbatim>\<open>X-Roles\<close> and with the deprecated \<^verbatim>\<open>X-Role: s\<close> gets the same list, and the one
  difference is the deprecation warning, which is logged when \<open>s\<close> is not empty.
\<close>

theorem roles_header_and_deprecated_fallback_agree:
  assumes "headers req ''X-Roles'' = Some s"
    and "headers req' ''X-Roles'' = None" and "headers req' ''X-Role'' = Some s"
  shows "get_roles req = (map strip (split_str CHR '','' s), [])
         \<and> get_roles req' = (map strip (split_str CHR '','' s),
                             if s \<noteq> [] then [(WARNING, deprecation_warning)] else [])
         \<and> fst (get_roles req') = fst (get_roles req)"
  using assms by (simp add: get_roles_def headers_get_str_def)

theorem roles_header_and_deprecated_fallback_agree_witness:
  "get_roles (request (example_state ''/v1/pods'' [''X-Roles'' \<mapsto> ''admin, member'']))
     = ([''admin'', ''member''], [])
   \<and> get_roles (request (example_state ''/v1/pods'' [''X-Role'' \<mapsto> ''admin, member'']))
     = ([''admin'', ''member''], [(WARNING, deprecation_warning)])"
  using roles_header_and_deprecated_fallback_agree
          [of "request (example_state ''/v1/pods'' [''X-Roles'' \<mapsto> ''admin, member''])"
              "''admin, member''"
              "request (example_state ''/v1/pods'' [''X-Role'' \<mapsto> ''admin, member''])"]
  by (simp add: strip_def isspace_def)

section \<open>What the module does with its own \<^verbatim>\<open>AUTH\<close>\<close>

text \<open>
  The branches of \<^verbatim>\<open>before\<close> behind the guard of line 91 (lemmas \<open>before_no_user_id\<close>,
  \<open>before_not_confirmed\<close>, \<open>before_confirmed\<close>) need a helper whose
  \<^verbatim>\<open>is_endpoint_public\<close> returns \<open>None\<close>.  The module's \<^verbatim>\<open>AUTH\<close> never does
  (\<open>AUTH_public\<close>), although no pattern of \<^verbatim>\<open>PUBLIC_ENDPOINTS\<close> matches any path.  The
  theorems of this section evaluate \<^verbatim>\<open>before\<close> with \<^verbatim>\<open>AUTH\<close> on requests for
  \<^verbatim>\<open>/v1/pods\<close>.
\<close>

text \<open>
  Claim C5 says that a request without \<^verbatim>\<open>X-User-Id\<close> on a path that is not public is
  rejected.  The module does not reject it: for \<^verbatim>\<open>/v1/pods\<close>, which no pattern of
  \<^verbatim>\<open>PUBLIC_ENDPOINTS\<close> matches, a request without any header passes through, nothing
  raised and nothing logged.
\<close>

theorem missing_user_id_not_rejected:
  "enable_authentication example_conf
   \<and> matches_public_endpoint_set PUBLIC_ENDPOINTS ''/v1/pods'' = False
   \<and> headers (request (example_state ''/v1/pods'' Map.empty)) ''X-User-Id'' = None
   \<and> before example_conf AUTH (example_state ''/v1/pods'' Map.empty)
       = \<lparr>raised = None, state_after = example_state ''/v1/pods'' Map.empty, logged = []\<rparr>"
  by (simp add: matches_public_endpoint_set_def PUBLIC_ENDPOINTS_def before_public AUTH_public)

text \<open>
  Claim C4 says that a request with \<^verbatim>\<open>X-User-Id\<close> whose \<^verbatim>\<open>X-Identity-Status\<close> is not
  \<^verbatim>\<open>Confirmed\<close>, on a path that is not public, is rejected.  The module does not
  reject it: for \<^verbatim>\<open>/v1/pods\<close> a request with the status \<^verbatim>\<open>Invalid\<close> passes through,
  nothing raised and nothing logged.
\<close>

theorem unconfirmed_identity_not_rejected:
  "enable_authentication example_conf
   \<and> matches_public_endpoint_set PUBLIC_ENDPOINTS ''/v1/pods'' = False
   \<and> before example_conf AUTH
        (example_state ''/v1/pods'' [''X-User-Id'' \<mapsto> ''u1'', ''X-Identity-Status'' \<mapsto> ''Invalid''])
       = \<lparr>raised = None,
          state_after = example_state ''/v1/pods''
                          [''X-User-Id'' \<mapsto> ''u1'', ''X-Identity-Status'' \<mapsto> ''Invalid''],
          logged = []\<rparr>"
  by (simp add: matches_public_endpoint_set_def PUBLIC_ENDPOINTS_def before_public AUTH_public)

text \<open>
  Claim C9 says that on a path that is not public a request either gets a context or
  is rejected.  The module does neither: for \<^verbatim>\<open>/v1/pods\<close> a request with only
  \<^verbatim>\<open>X-User-Id\<close> leaves \<^verbatim>\<open>before\<close> with nothing raised and without a context.
\<close>

theorem neither_context_nor_rejection:
  "enable_authentication example_conf
   \<and> matches_public_endpoint_set PUBLIC_ENDPOINTS ''/v1/pods'' = False
   \<and> raised (before example_conf AUTH
        (example_state ''/v1/pods'' [''X-User-Id'' \<mapsto> ''u1''])) = None
   \<and> security_context (request (state_after (before example_conf AUTH
        (example_state ''/v1/pods'' [''X-User-Id'' \<mapsto> ''u1''])))) = None"
  by (simp add: matches_public_endpoint_set_def PUBLIC_ENDPOINTS_def before_public AUTH_public)

text \<open>
  Claim C3 says that the request with the headers \<^verbatim>\<open>X-User-Id: u1\<close>,
  \<^verbatim>\<open>X-Identity-Status: Confirmed\<close> and \<^verbatim>\<open>X-Roles: admin, member\<close> gets a context with
  user \<^verbatim>\<open>u1\<close> and roles \<^verbatim>\<open>['admin', 'member']\<close>.  With the module's \<^verbatim>\<open>AUTH\<close> it gets none:
  for \<^verbatim>\<open>/v1/pods\<close> the request passes through and no context is assigned.
\<close>

theorem example_headers_get_no_context:
  "enable_authentication example_conf
   \<and> matches_public_endpoint_set PUBLIC_ENDPOINTS ''/v1/pods'' = False
   \<and> raised (before example_conf AUTH
        (example_state ''/v1/pods''
           [''X-User-Id'' \<mapsto> ''u1'', ''X-Identity-Status'' \<mapsto> ''Confirmed'',
            ''X-Roles'' \<mapsto> ''admin, member''])) = None
   \<and> security_context (request (state_after (before example_conf AUTH
        (example_state ''/v1/pods''
           [''X-User-Id'' \<mapsto> ''u1'', ''X-Identity-Status'' \<mapsto> ''Confirmed'',
            ''X-Roles'' \<mapsto> ''admin, member''])))) = None"
  by (simp add: matches_public_endpoint_set_def PUBLIC_ENDPOINTS_def before_public AUTH_public)


text \<open>
  Claim C10 says that a request without \<^verbatim>\<open>X-Auth-Token\<close> and \<^verbatim>\<open>X-Storage-Token\<close> is not
  rejected for that and still gets a context, with \<open>auth_token = None\<close>.  With the module's
  \<^verbatim>\<open>AUTH\<close> the request is indeed not rejected, and the token read is \<open>None\<close>, but no
  context is constructed: for \<^verbatim>\<open>/v1/pods\<close> a request of a confirmed identity without a
  token leaves \<^verbatim>\<open>before\<close> without a context.
\<close>

theorem no_context_without_auth_token:
  "try_recv_auth_token [''X-User-Id'' \<mapsto> ''u1'', ''X-Identity-Status'' \<mapsto> ''Confirmed'']
     = Inr None
   \<and> matches_public_endpoint_set PUBLIC_ENDPOINTS ''/v1/pods'' = False
   \<and> before example_conf AUTH
        (example_state ''/v1/pods'' [''X-User-Id'' \<mapsto> ''u1'', ''X-Identity-Status'' \<mapsto> ''Confirmed''])
       = \<lparr>raised = None,
          state_after = example_state ''/v1/pods''
                          [''X-User-Id'' \<mapsto> ''u1'', ''X-Identity-Status'' \<mapsto> ''Confirmed''],
          logged = []\<rparr>
   \<and> security_context (request (state_after (before example_conf AUTH
        (example_state ''/v1/pods''
           [''X-User-Id'' \<mapsto> ''u1'', ''X-Identity-Status'' \<mapsto> ''Confirmed''])))) = None"
  by (simp add: try_recv_auth_token_def headers_get_def matches_public_endpoint_set_def
        PUBLIC_ENDPOINTS_def before_public AUTH_public)

end
